theory Spec2Isabelle
  imports Complex_Main "HOL-Library.Sublist" "HOL-Library.Char_ord" "HOL-Library.List_Lexorder"
    "HOL-Library.Multiset"
begin

section \<open>Student Management System (st10.py): model\<close>

subsection \<open>Python strings\<close>

text \<open>
  Strings are lists of code points below 256. \<open>py_strip\<close> is \<open>str.strip()\<close>, which
  removes the characters for which \<open>str.isspace\<close> holds; \<open>py_lower\<close> is \<open>str.lower()\<close>;
  \<open>py_split\<close> is \<open>str.split(sep)\<close> for a one-character separator; \<open>py_join\<close> is
  \<open>sep.join(xs)\<close>; \<open>py_in q s\<close> is the substring test \<open>q in s\<close>.
\<close>

definition isspace :: "char \<Rightarrow> bool" where
  "isspace c =
     (let n = (of_char c :: nat)
      in (9 \<le> n \<and> n \<le> 13) \<or> (28 \<le> n \<and> n \<le> 32) \<or> n = 133 \<or> n = 160)"

definition py_strip :: "string \<Rightarrow> string" where
  "py_strip s = rev (dropWhile isspace (rev (dropWhile isspace s)))"

definition lower_char :: "char \<Rightarrow> char" where
  "lower_char c =
     (let n = (of_char c :: nat)
      in if (65 \<le> n \<and> n \<le> 90) \<or> (192 \<le> n \<and> n \<le> 222 \<and> n \<noteq> 215)
         then char_of (n + 32) else c)"

definition py_lower :: "string \<Rightarrow> string" where
  "py_lower s = map lower_char s"

fun py_split :: "char \<Rightarrow> string \<Rightarrow> string list" where
  "py_split sep [] = [[]]"
| "py_split sep (c # cs) =
     (if c = sep then [] # py_split sep cs
      else (case py_split sep cs of [] \<Rightarrow> [[c]] | w # ws \<Rightarrow> (c # w) # ws))"

fun py_join :: "string \<Rightarrow> string list \<Rightarrow> string" where
  "py_join sep [] = []"
| "py_join sep [x] = x"
| "py_join sep (x # y # ys) = x @ sep @ py_join sep (y # ys)"

fun py_in :: "string \<Rightarrow> string \<Rightarrow> bool" where
  "py_in q [] = (q = [])"
| "py_in q (c # cs) = (prefix q (c # cs) \<or> py_in q cs)"

subsection \<open>Python floats\<close>

text \<open>
  A float is a finite value (every double is a rational), negative zero, an infinity or
  NaN. Comparison with an integer constant is exact and is defined here. The operations
  whose result depends on IEEE rounding or on the printing algorithm are not part of the
  program; the model takes them as the parameter \<open>pylib\<close>:
  \<open>py_float\<close> is \<open>float(s)\<close> on a string (\<open>None\<close> when it raises ValueError),
  \<open>py_str\<close> is \<open>str(x)\<close>, \<open>py_sum\<close> is \<open>sum(vals)\<close>, \<open>py_truediv x n\<close> is \<open>x / n\<close> for
  an integer \<open>n\<close>, and \<open>py_round2\<close> is \<open>round(x, 2)\<close>. What the storage layer does
  to a float bound to a REAL column is not part of the program either: \<open>sql_real x\<close> is
  the value read back from the column after \<open>x\<close> was bound (\<open>None\<close> is NULL; sqlite3
  stores a NaN as NULL), and \<open>sql_max_variables\<close> is the largest number of variables
  that SQLite accepts in one statement (32766 by default, 999 before SQLite 3.32).
\<close>

datatype pyfloat = Fin rat | NZero | PInf | NInf | NaN

record pylib =
  py_float :: "string \<Rightarrow> pyfloat option"
  py_str :: "pyfloat \<Rightarrow> string"
  py_sum :: "pyfloat list \<Rightarrow> pyfloat"
  py_truediv :: "pyfloat \<Rightarrow> nat \<Rightarrow> pyfloat"
  py_round2 :: "pyfloat \<Rightarrow> pyfloat"
  sql_real :: "pyfloat \<Rightarrow> pyfloat option"
  sql_max_variables :: int

fun float_ge :: "pyfloat \<Rightarrow> int \<Rightarrow> bool" where
  "float_ge (Fin q) n = (of_int n \<le> q)"
| "float_ge NZero n = (n \<le> 0)"
| "float_ge PInf n = True"
| "float_ge NInf n = False"
| "float_ge NaN n = False"

fun float_lt :: "pyfloat \<Rightarrow> int \<Rightarrow> bool" where
  "float_lt (Fin q) n = (q < of_int n)"
| "float_lt NZero n = (0 < n)"
| "float_lt PInf n = False"
| "float_lt NInf n = True"
| "float_lt NaN n = False"

subsection \<open>The model class\<close>

text \<open>Class \<open>Student\<close>; the field \<open>section\<close> is named \<open>sectn\<close> here.\<close>

record student =
  uid :: string
  name :: string
  student_class :: string
  sectn :: string
  subjects :: "string list"
  marks :: "string list"
  image_filename :: string

definition Student ::
  "string \<Rightarrow> string \<Rightarrow> string \<Rightarrow> string \<Rightarrow> string list \<Rightarrow> string list \<Rightarrow> string \<Rightarrow> student" where
  "Student u n c sec subs mks img =
     \<lparr>uid = u, name = n, student_class = c, sectn = sec, subjects = subs, marks = mks,
      image_filename = img\<rparr>"

subsection \<open>Helpers: averages and grade\<close>

text \<open>
  \<open>_avg_of\<close>: no average for an empty mark list; the empty strings are skipped; a mark
  on which \<open>float\<close> raises makes the whole computation return \<open>None\<close> (the
  \<open>except Exception\<close> branch); no average when nothing is left; otherwise
  \<open>round(sum(vals)/len(vals), 2)\<close>.
\<close>

definition avg_of :: "pylib \<Rightarrow> student \<Rightarrow> pyfloat option" where
  "avg_of L s =
     (if marks s = [] then None
      else case those (map (py_float L) (filter (\<lambda>x. x \<noteq> []) (marks s))) of
             None \<Rightarrow> None
           | Some vals \<Rightarrow>
               if vals = [] then None
               else Some (py_round2 L (py_truediv L (py_sum L vals) (length vals))))"

definition grade_of :: "pyfloat option \<Rightarrow> string" where
  "grade_of avg =
     (case avg of
        None \<Rightarrow> ''N/A''
      | Some a \<Rightarrow> if float_ge a 90 then ''A'' else if float_ge a 75 then ''B'' else ''C'')"

subsection \<open>Search\<close>

text \<open>
  \<open>search_students\<close>. The \<open>for\<close> loop only rebinds \<open>s\<close> and \<open>combined\<close>; the test
  \<open>if q in combined\<close> stands after the loop, at the indentation of the \<open>for\<close>. The loop
  is the fold \<open>search_loop\<close>, whose result is the last binding (none for an empty list,
  where reading \<open>combined\<close> raises UnboundLocalError). The value returned is the list
  handed to \<open>refresh_table\<close>; with an empty query that is the whole student list.
\<close>

datatype py_error = UnboundLocalError

definition combined_of :: "student \<Rightarrow> string" where
  "combined_of s =
     py_lower (py_join '' '' [uid s, name s, student_class s, sectn s,
                             py_join '' '' (subjects s), py_join '' '' (marks s)])"

definition search_loop :: "student list \<Rightarrow> (student \<times> string) option" where
  "search_loop studs = foldl (\<lambda>bound s. Some (s, combined_of s)) None studs"

definition search_students :: "string \<Rightarrow> student list \<Rightarrow> py_error + student list" where
  "search_students query studs =
     (let q = py_lower (py_strip query)
      in if q = [] then Inr studs
         else case search_loop studs of
                None \<Rightarrow> Inl UnboundLocalError
              | Some (s, combined) \<Rightarrow> Inr (if py_in q combined then [s] else []))"

text \<open>
  What the specification says of search: exactly the students whose combined fields
  contain the query, case-insensitively. This definition follows the specification's
  words and is compared with \<open>search_students\<close>.
\<close>

definition search_spec :: "string \<Rightarrow> student list \<Rightarrow> student list" where
  "search_spec query studs = filter (\<lambda>s. py_in (py_lower (py_strip query)) (combined_of s)) studs"

subsection \<open>Database (normalized)\<close>

text \<open>
  The three tables of \<open>_init_db\<close>. A table is the list of its rows in rowid order.
  \<open>subjects_seq\<close> is the AUTOINCREMENT counter of \<open>subjects\<close> (SQLite's
  \<open>sqlite_sequence\<close> row). The AUTOINCREMENT id of \<open>student_subjects\<close> is never
  read by the program and is the position in the list.
\<close>

record students_row =
  s_uid :: string
  s_name :: string
  s_student_class :: string
  s_section :: string
  s_image_filename :: string

record subjects_row =
  sub_id :: nat
  sub_name :: string

record student_subjects_row =
  ss_student_uid :: string
  ss_subject_id :: nat
  ss_mark :: "pyfloat option"

record tables =
  students_tbl :: "students_row list"
  subjects_tbl :: "subjects_row list"
  subjects_seq :: nat
  student_subjects_tbl :: "student_subjects_row list"

text \<open>The calls of \<open>messagebox\<close>, as values.\<close>

datatype msg =
    DbErrSubject string
  | DbErrSave string
  | DbErrDelete string
  | DbErrLoad
  | DbErrSync
  | ErrRequired
  | ErrMismatch
  | ErrNumeric
  | WarnImage
  | ErrUidExists
  | ErrNotFound
  | InfoAdded
  | InfoUpdated

text \<open>
  The application object: the in-memory list \<open>self.students\<close>; the connection, as the
  database at its last commit (\<open>committed\<close>) and the database as the connection sees
  it, with the changes of the open transaction (\<open>working\<close>); whether foreign keys are
  enforced; the message boxes shown so far, oldest first. \<open>faults\<close> is the environment:
  the outcome of the coming calls of \<open>cur.execute\<close>, \<open>True\<close> for a call that raises
  \<open>sqlite3.Error\<close> (disk full, I/O error, locked file); when the list is used up no
  further call raises.
\<close>

record app =
  students :: "student list"
  committed :: tables
  working :: tables
  foreign_keys :: bool
  faults :: "bool list"
  shown :: "msg list"

definition messagebox :: "msg \<Rightarrow> app \<Rightarrow> app" where
  "messagebox m a = a\<lparr>shown := shown a @ [m]\<rparr>"

text \<open>
  \<open>with self.conn:\<close> commits when its body ends or returns, and rolls back when the body
  raises. sqlite3 opens a transaction implicitly before a data-changing statement, so
  between a commit and the next such statement \<open>working\<close> equals \<open>committed\<close>.
\<close>

definition commit :: "app \<Rightarrow> app" where
  "commit a = a\<lparr>committed := working a\<rparr>"

definition rollback :: "app \<Rightarrow> app" where
  "rollback a = a\<lparr>working := committed a\<rparr>"

text \<open>
  \<open>cur.execute\<close> of a data-changing statement: \<open>(False, _)\<close> when it raises, either
  because the environment fails it or because the statement violates a constraint
  (\<open>stmt\<close> returns \<open>None\<close>); a failed statement changes no row. \<open>query\<close> is
  \<open>cur.execute\<close> of a SELECT followed by the fetch.
\<close>

definition execute :: "(bool \<Rightarrow> tables \<Rightarrow> tables option) \<Rightarrow> app \<Rightarrow> bool \<times> app" where
  "execute stmt a =
     (case faults a of
        True # fs \<Rightarrow> (False, a\<lparr>faults := fs\<rparr>)
      | _ \<Rightarrow>
          (let a' = a\<lparr>faults := drop 1 (faults a)\<rparr>
           in case stmt (foreign_keys a) (working a) of
                None \<Rightarrow> (False, a')
              | Some t \<Rightarrow> (True, a'\<lparr>working := t\<rparr>)))"

definition query :: "(tables \<Rightarrow> 'r) \<Rightarrow> app \<Rightarrow> 'r option \<times> app" where
  "query sel a =
     (case faults a of
        True # fs \<Rightarrow> (None, a\<lparr>faults := fs\<rparr>)
      | _ \<Rightarrow> (Some (sel (working a)), a\<lparr>faults := drop 1 (faults a)\<rparr>))"

subsubsection \<open>The SQL statements\<close>

text \<open>
  \<open>DELETE FROM students WHERE P\<close>. With foreign keys on, the rows of \<open>student_subjects\<close>
  that reference a deleted student go with it (ON DELETE CASCADE).
\<close>

definition delete_students :: "(students_row \<Rightarrow> bool) \<Rightarrow> bool \<Rightarrow> tables \<Rightarrow> tables" where
  "delete_students P fk t =
     (let gone = map s_uid (filter P (students_tbl t))
      in t\<lparr>students_tbl := filter (\<lambda>r. \<not> P r) (students_tbl t),
            student_subjects_tbl :=
              (if fk then filter (\<lambda>l. ss_student_uid l \<notin> set gone) (student_subjects_tbl t)
               else student_subjects_tbl t)\<rparr>)"

text \<open>
  \<open>INSERT OR REPLACE INTO students\<close>: \<open>uid\<close> is the primary key, so a row with the same
  uid is deleted first (with the cascade, when foreign keys are on) and the new row gets
  the next rowid.
\<close>

definition insert_or_replace_student :: "students_row \<Rightarrow> bool \<Rightarrow> tables \<Rightarrow> tables option" where
  "insert_or_replace_student r fk t =
     (let t1 = delete_students (\<lambda>x. s_uid x = s_uid r) fk t
      in Some (t1\<lparr>students_tbl := students_tbl t1 @ [r]\<rparr>))"

text \<open>\<open>DELETE FROM student_subjects WHERE student_uid = ?\<close>\<close>

definition delete_student_subjects :: "string \<Rightarrow> bool \<Rightarrow> tables \<Rightarrow> tables option" where
  "delete_student_subjects u fk t =
     Some (t\<lparr>student_subjects_tbl := filter (\<lambda>l. ss_student_uid l \<noteq> u) (student_subjects_tbl t)\<rparr>)"

text \<open>
  \<open>INSERT OR IGNORE INTO subjects (name)\<close>: the statement takes the id after the
  largest id ever used and advances the AUTOINCREMENT counter to it; the row is added
  with that id unless the name is there already (\<open>name\<close> is UNIQUE), in which case only
  the counter has moved.
\<close>

definition insert_or_ignore_subject :: "string \<Rightarrow> bool \<Rightarrow> tables \<Rightarrow> tables option" where
  "insert_or_ignore_subject nm fk t =
     (let i = Suc (Max (insert (subjects_seq t) (set (map sub_id (subjects_tbl t)))))
      in if nm \<in> set (map sub_name (subjects_tbl t)) then Some (t\<lparr>subjects_seq := i\<rparr>)
         else Some (t\<lparr>subjects_tbl := subjects_tbl t @ [\<lparr>sub_id = i, sub_name = nm\<rparr>],
                     subjects_seq := i\<rparr>))"

text \<open>\<open>SELECT id FROM subjects WHERE name = ?\<close> and \<open>fetchone\<close>\<close>

definition select_subject_id :: "string \<Rightarrow> tables \<Rightarrow> nat option" where
  "select_subject_id nm t = map_option sub_id (find (\<lambda>r. sub_name r = nm) (subjects_tbl t))"

text \<open>
  \<open>INSERT INTO student_subjects\<close>: with foreign keys on, the statement fails unless the
  student and the subject it references exist.
\<close>

definition insert_student_subject :: "student_subjects_row \<Rightarrow> bool \<Rightarrow> tables \<Rightarrow> tables option" where
  "insert_student_subject l fk t =
     (if fk \<and> (ss_student_uid l \<notin> set (map s_uid (students_tbl t))
              \<or> ss_subject_id l \<notin> set (map sub_id (subjects_tbl t)))
      then None
      else Some (t\<lparr>student_subjects_tbl := student_subjects_tbl t @ [l]\<rparr>))"

text \<open>
  The join of \<open>load_data\<close>: the (subject name, mark) pairs of one student,
  \<open>ORDER BY sub.name\<close> (byte order; rows with equal names stay in rowid order here).
\<close>

definition select_subjects_marks :: "string \<Rightarrow> tables \<Rightarrow> (string \<times> pyfloat option) list" where
  "select_subjects_marks u t =
     sort_key fst
       [(sub_name sb, ss_mark l).
          l \<leftarrow> student_subjects_tbl t, ss_student_uid l = u,
          sb \<leftarrow> subjects_tbl t, sub_id sb = ss_subject_id l]"

subsubsection \<open>The methods\<close>

text \<open>
  \<open>_init_db\<close> on a database file with the tables \<open>file\<close> (CREATE TABLE IF NOT EXISTS
  keeps them). The pragmas stand in a \<open>try\<close> whose \<open>except\<close> passes: \<open>pragma_ok\<close> says
  whether \<open>PRAGMA foreign_keys = ON\<close> took effect.
\<close>

definition init_db :: "bool \<Rightarrow> tables \<Rightarrow> bool list \<Rightarrow> app" where
  "init_db pragma_ok file env =
     \<lparr>students = [], committed = file, working = file, foreign_keys = pragma_ok,
      faults = env, shown = []\<rparr>"

text \<open>
  \<open>_get_subject_id\<close>. Its own \<open>with self.conn:\<close> is left by \<open>return\<close>, which commits
  whatever transaction is open on the connection, and by an exception, which rolls it
  back; both happen on the one connection the caller uses.
\<close>

definition get_subject_id :: "string \<Rightarrow> app \<Rightarrow> nat option \<times> app" where
  "get_subject_id subject_name a =
     (if subject_name = [] then (None, a)
      else (let nm = py_strip subject_name
            in if nm = [] then (None, a)
               else (case execute (insert_or_ignore_subject nm) a of
                       (False, a1) \<Rightarrow> (None, messagebox (DbErrSubject subject_name) (rollback a1))
                     | (True, a1) \<Rightarrow>
                         (case query (select_subject_id nm) a1 of
                            (None, a2) \<Rightarrow>
                              (None, messagebox (DbErrSubject subject_name) (rollback a2))
                          | (Some row, a2) \<Rightarrow> (row, commit a2)))))"

text \<open>
  The value bound for a mark: \<open>float(mk)\<close>, or \<open>None\<close> when that raises; then what the
  REAL column keeps of it.
\<close>

definition mark_val :: "pylib \<Rightarrow> string \<Rightarrow> pyfloat option" where
  "mark_val L mk = (case py_float L mk of None \<Rightarrow> None | Some v \<Rightarrow> sql_real L v)"

text \<open>The loop of \<open>db_upsert_student_normalized\<close> over \<open>zip(student.subjects, student.marks)\<close>.\<close>

fun insert_mappings :: "pylib \<Rightarrow> string \<Rightarrow> (string \<times> string) list \<Rightarrow> app \<Rightarrow> bool \<times> app" where
  "insert_mappings L u [] a = (True, a)"
| "insert_mappings L u ((subj, mk) # rest) a =
     (case get_subject_id subj a of
        (None, a1) \<Rightarrow> insert_mappings L u rest a1
      | (Some sid, a1) \<Rightarrow>
          (case execute (insert_student_subject
                           \<lparr>ss_student_uid = u, ss_subject_id = sid, ss_mark = mark_val L mk\<rparr>) a1 of
             (False, a2) \<Rightarrow> (False, a2)
           | (True, a2) \<Rightarrow> insert_mappings L u rest a2))"

definition db_upsert_student_normalized :: "pylib \<Rightarrow> student \<Rightarrow> app \<Rightarrow> app" where
  "db_upsert_student_normalized L st a =
     (case execute (insert_or_replace_student
                      \<lparr>s_uid = uid st, s_name = name st, s_student_class = student_class st,
                       s_section = sectn st, s_image_filename = image_filename st\<rparr>) a of
        (False, a1) \<Rightarrow> messagebox (DbErrSave (uid st)) (rollback a1)
      | (True, a1) \<Rightarrow>
          (case execute (delete_student_subjects (uid st)) a1 of
             (False, a2) \<Rightarrow> messagebox (DbErrSave (uid st)) (rollback a2)
           | (True, a2) \<Rightarrow>
               (case insert_mappings L (uid st) (zip (subjects st) (marks st)) a2 of
                  (False, a3) \<Rightarrow> messagebox (DbErrSave (uid st)) (rollback a3)
                | (True, a3) \<Rightarrow> commit a3)))"

definition db_delete_student_normalized :: "string \<Rightarrow> app \<Rightarrow> app" where
  "db_delete_student_normalized u a =
     (case execute (\<lambda>fk t. Some (delete_students (\<lambda>r. s_uid r = u) fk t)) a of
        (False, a1) \<Rightarrow> messagebox (DbErrDelete u) (rollback a1)
      | (True, a1) \<Rightarrow> commit a1)"

text \<open>
  \<open>load_data\<close>: the list is emptied first; an exception leaves the students appended so
  far. Marks come back as \<open>str(mark)\<close>, or the empty string for NULL.
\<close>

definition mark_str :: "pylib \<Rightarrow> pyfloat option \<Rightarrow> string" where
  "mark_str L m = (case m of None \<Rightarrow> [] | Some v \<Rightarrow> py_str L v)"

fun load_rows :: "pylib \<Rightarrow> students_row list \<Rightarrow> app \<Rightarrow> bool \<times> app" where
  "load_rows L [] a = (True, a)"
| "load_rows L (srow # rest) a =
     (case query (select_subjects_marks (s_uid srow)) a of
        (None, a1) \<Rightarrow> (False, a1)
      | (Some sm_rows, a1) \<Rightarrow>
          load_rows L rest
            (a1\<lparr>students := students a1 @
                   [Student (s_uid srow) (s_name srow) (s_student_class srow) (s_section srow)
                      (map fst sm_rows) (map (\<lambda>r. mark_str L (snd r)) sm_rows)
                      (s_image_filename srow)]\<rparr>))"

definition load_data :: "pylib \<Rightarrow> app \<Rightarrow> app" where
  "load_data L a =
     (case query students_tbl (a\<lparr>students := []\<rparr>) of
        (None, a1) \<Rightarrow> messagebox DbErrLoad a1
      | (Some students_rows, a1) \<Rightarrow>
          (case load_rows L students_rows a1 of
             (False, a2) \<Rightarrow> messagebox DbErrLoad a2
           | (True, a2) \<Rightarrow> a2))"


subsection \<open>Add / Update form\<close>

text \<open>
  What the \<open>save\<close> closure of \<open>_student_form\<close> reads: the six entries, the chosen photo
  path, and \<open>stored_image\<close>, the outcome of the file-system step on that path (the
  relative path of the photo, or \<open>None\<close> when copying raises).
\<close>

record form =
  entry_uid :: string
  entry_name :: string
  entry_class :: string
  entry_section :: string
  entry_subjects :: string
  entry_marks :: string
  img_path_var :: string
  stored_image :: "string option"

datatype mode = Add | Update

text \<open>\<open>[x.strip() for x in text.split(",") if x.strip()]\<close>\<close>

definition comma_separated :: "string \<Rightarrow> string list" where
  "comma_separated txt = filter (\<lambda>x. x \<noteq> []) (map py_strip (py_split CHR '','' txt))"

text \<open>
  The loop of update mode: the first student with the uid is changed in place and is the
  one handed to the upsert.
\<close>

fun update_first :: "string \<Rightarrow> (student \<Rightarrow> student) \<Rightarrow> student list \<Rightarrow> (student list \<times> student) option" where
  "update_first u f [] = None"
| "update_first u f (s # rest) =
     (if uid s = u then Some (f s # rest, f s)
      else (case update_first u f rest of
              None \<Rightarrow> None
            | Some (rest', s') \<Rightarrow> Some (s # rest', s')))"

text \<open>
  \<open>save\<close>, in two steps. \<open>save_body\<close> is the closure up to the call of
  \<open>self.load_data()\<close>: \<open>(False, _)\<close> when it has returned early after an error box,
  \<open>(True, _)\<close> with the state in which \<open>load_data\<close> is then called. \<open>those\<close> stands for
  the loop over \<open>marks_input\<close>, which returns at the first mark on which \<open>float\<close> raises
  ValueError.
\<close>

definition save_body :: "pylib \<Rightarrow> mode \<Rightarrow> form \<Rightarrow> app \<Rightarrow> bool \<times> app" where
  "save_body L md f a =
     (let u = py_strip (entry_uid f);
          nm = py_strip (entry_name f);
          cls = py_strip (entry_class f);
          sec = py_strip (entry_section f);
          subs = comma_separated (entry_subjects f);
          marks_input = comma_separated (entry_marks f)
      in if \<not> (u \<noteq> [] \<and> nm \<noteq> [] \<and> cls \<noteq> []) then (False, messagebox ErrRequired a)
         else if subs \<noteq> [] \<and> length subs \<noteq> length marks_input
         then (False, messagebox ErrMismatch a)
         else (case those (map (py_float L) marks_input) of
                 None \<Rightarrow> (False, messagebox ErrNumeric a)
               | Some vals \<Rightarrow>
                   (let mks = map (py_str L) vals;
                        image_target_rel =
                          (if img_path_var f = [] then []
                           else (case stored_image f of None \<Rightarrow> [] | Some rel \<Rightarrow> rel));
                        a1 = (if img_path_var f \<noteq> [] \<and> stored_image f = None
                              then messagebox WarnImage a else a)
                    in (case md of
                          Add \<Rightarrow>
                            if u \<in> set (map uid (students a1))
                            then (False, messagebox ErrUidExists a1)
                            else (let new = Student u nm cls sec subs mks image_target_rel;
                                      a2 = a1\<lparr>students := students a1 @ [new]\<rparr>;
                                      a3 = db_upsert_student_normalized L new a2
                                  in (True, messagebox InfoAdded a3))
                        | Update \<Rightarrow>
                            (case update_first u
                                    (\<lambda>s. s\<lparr>name := nm, student_class := cls, sectn := sec,
                                           subjects := subs, marks := mks,
                                           image_filename :=
                                             (if image_target_rel \<noteq> [] then image_target_rel
                                              else image_filename s)\<rparr>)
                                    (students a1) of
                               None \<Rightarrow> (True, messagebox ErrNotFound a1)
                             | Some (studs, s) \<Rightarrow>
                                 (True,
                                  messagebox InfoUpdated
                                    (db_upsert_student_normalized L s
                                       (a1\<lparr>students := studs\<rparr>))))))))"

definition save :: "pylib \<Rightarrow> mode \<Rightarrow> form \<Rightarrow> app \<Rightarrow> app" where
  "save L md f a =
     (case save_body L md f a of
        (False, a') \<Rightarrow> a'
      | (True, a') \<Rightarrow> load_data L a')"

subsection \<open>An instance of the library for concrete runs\<close>

text \<open>
  The examples below run the model on short decimal literals. \<open>dec_lib\<close> computes with
  exact decimal arithmetic: \<open>float\<close> reads an optional sign, digits and an optional
  fraction; \<open>str\<close> prints the integer part, a point and the fraction digits. On the
  literals of the examples, whose values are binary fractions of a few digits, this is
  what CPython computes. \<open>sum\<close>, \<open>/\<close> and \<open>round(x, 2)\<close> (half to even) are exact here,
  without the rounding of doubles; no statement below runs them.
\<close>

definition digit_val :: "char \<Rightarrow> nat option" where
  "digit_val c =
     (let n = (of_char c :: nat) in if 48 \<le> n \<and> n \<le> 57 then Some (n - 48) else None)"

fun digits_val :: "string \<Rightarrow> nat \<Rightarrow> nat option" where
  "digits_val [] acc = Some acc"
| "digits_val (c # cs) acc =
     (case digit_val c of None \<Rightarrow> None | Some d \<Rightarrow> digits_val cs (10 * acc + d))"

definition dec_float :: "string \<Rightarrow> pyfloat option" where
  "dec_float txt =
     (let s = py_strip txt;
          signed = (take 1 s = ''-'' \<or> take 1 s = ''+'');
          body = (if signed then drop 1 s else s);
          ip = takeWhile (\<lambda>c. c \<noteq> CHR ''.'') body;
          fp = drop 1 (dropWhile (\<lambda>c. c \<noteq> CHR ''.'') body)
      in if ip = [] \<and> fp = [] then None
         else (case (digits_val ip 0, digits_val fp 0) of
                 (Some i, Some k) \<Rightarrow>
                   (let q = (of_nat i :: rat) + of_nat k / 10 ^ length fp
                    in if take 1 s = ''-'' then (if q = 0 then Some NZero else Some (Fin (- q)))
                       else Some (Fin q))
               | _ \<Rightarrow> None))"

fun nat_str :: "nat \<Rightarrow> nat \<Rightarrow> string" where
  "nat_str 0 n = []"
| "nat_str (Suc fuel) n =
     (if n < 10 then [char_of (48 + n)]
      else nat_str fuel (n div 10) @ [char_of (48 + n mod 10)])"

fun frac_str :: "nat \<Rightarrow> rat \<Rightarrow> string" where
  "frac_str 0 r = []"
| "frac_str (Suc fuel) r =
     (if r = 0 then []
      else (let d = nat \<lfloor>r * 10\<rfloor> in char_of (48 + d) # frac_str fuel (r * 10 - of_nat d)))"

definition dec_str :: "pyfloat \<Rightarrow> string" where
  "dec_str x =
     (case x of
        Fin q \<Rightarrow>
          (let m = \<bar>q\<bar>; i = nat \<lfloor>m\<rfloor>; r = m - of_nat i
           in (if q < 0 then ''-'' else []) @ nat_str 20 i @ ''.'' @
              (if r = 0 then ''0'' else frac_str 20 r))
      | NZero \<Rightarrow> ''-0.0''
      | PInf \<Rightarrow> ''inf''
      | NInf \<Rightarrow> ''-inf''
      | NaN \<Rightarrow> ''nan'')"

fun rat_of :: "pyfloat \<Rightarrow> rat option" where
  "rat_of (Fin q) = Some q"
| "rat_of NZero = Some 0"
| "rat_of _ = None"

definition dec_sum :: "pyfloat list \<Rightarrow> pyfloat" where
  "dec_sum vals = (case those (map rat_of vals) of None \<Rightarrow> NaN | Some qs \<Rightarrow> Fin (sum_list qs))"

definition dec_truediv :: "pyfloat \<Rightarrow> nat \<Rightarrow> pyfloat" where
  "dec_truediv x n = (case rat_of x of None \<Rightarrow> x | Some q \<Rightarrow> Fin (q / of_nat n))"

definition half_even :: "rat \<Rightarrow> int" where
  "half_even y =
     (let k = \<lfloor>y\<rfloor>; d = y - of_int k
      in if d < 1 / 2 then k else if 1 / 2 < d then k + 1 else if even k then k else k + 1)"

definition dec_round2 :: "pyfloat \<Rightarrow> pyfloat" where
  "dec_round2 x = (case x of Fin q \<Rightarrow> Fin (of_int (half_even (q * 100)) / 100) | _ \<Rightarrow> x)"

definition dec_sql_real :: "pyfloat \<Rightarrow> pyfloat option" where
  "dec_sql_real x = (case x of NaN \<Rightarrow> None | NZero \<Rightarrow> Some (Fin 0) | _ \<Rightarrow> Some x)"

definition dec_lib :: pylib where
  "dec_lib =
     \<lparr>py_float = dec_float, py_str = dec_str, py_sum = dec_sum, py_truediv = dec_truediv,
      py_round2 = dec_round2, sql_real = dec_sql_real, sql_max_variables = 32766\<rparr>"

subsection \<open>The validation message of the form\<close>

text \<open>
  The error box of the three checks that \<open>save\<close> makes before it touches anything, for a
  submission that does not pass all of them: required fields, then the count of subjects
  against marks, then the numeric check of the marks.
\<close>

definition validation_error :: "form \<Rightarrow> msg" where
  "validation_error f =
     (if \<not> (py_strip (entry_uid f) \<noteq> [] \<and> py_strip (entry_name f) \<noteq> [] \<and>
             py_strip (entry_class f) \<noteq> []) then ErrRequired
      else if comma_separated (entry_subjects f) \<noteq> [] \<and>
              length (comma_separated (entry_subjects f)) \<noteq> length (comma_separated (entry_marks f))
      then ErrMismatch else ErrNumeric)"

subsection \<open>Example data\<close>

definition alice :: student where
  "alice = Student ''1'' ''Alice'' ''10'' ''A'' [''Math''] [''90.0''] ''''"

definition bob :: student where
  "bob = Student ''2'' ''Bob'' ''10'' ''B'' [''Physics''] [''80.0''] ''''"

definition empty_tables :: tables where
  "empty_tables =
     \<lparr>students_tbl = [], subjects_tbl = [], subjects_seq = 0, student_subjects_tbl = []\<rparr>"

text \<open>A database with one student, one subject and one mark.\<close>

definition stored_db :: tables where
  "stored_db =
     \<lparr>students_tbl = [\<lparr>s_uid = ''1'', s_name = ''Old'', s_student_class = ''9'',
                       s_section = ''A'', s_image_filename = ''''\<rparr>],
      subjects_tbl = [\<lparr>sub_id = 1, sub_name = ''Math''\<rparr>],
      subjects_seq = 1,
      student_subjects_tbl =
        [\<lparr>ss_student_uid = ''1'', ss_subject_id = 1, ss_mark = Some (Fin 50)\<rparr>]\<rparr>"

definition new_version :: student where
  "new_version = Student ''1'' ''New'' ''10'' ''B'' [''Math''] [''90''] ''''"

text \<open>The application with that database loaded.\<close>

definition app_one :: app where
  "app_one =
     (init_db True stored_db [])
       \<lparr>students := [Student ''1'' ''Old'' ''9'' ''A'' [''Math''] [''50.0''] '''']\<rparr>"

definition form_bad_mark :: form where
  "form_bad_mark =
     \<lparr>entry_uid = ''7'', entry_name = ''Ann'', entry_class = ''10'', entry_section = ''A'',
      entry_subjects = ''Math, Art'', entry_marks = ''90, 8o'', img_path_var = '''',
      stored_image = None\<rparr>"

definition form_dup :: form where
  "form_dup =
     \<lparr>entry_uid = '' 1 '', entry_name = ''Ann'', entry_class = ''10'', entry_section = ''A'',
      entry_subjects = ''Math'', entry_marks = ''90'', img_path_var = '''',
      stored_image = None\<rparr>"

definition form_marks_only :: form where
  "form_marks_only =
     \<lparr>entry_uid = ''7'', entry_name = ''Ann'', entry_class = ''10'', entry_section = '''',
      entry_subjects = '''', entry_marks = ''90'', img_path_var = '''',
      stored_image = None\<rparr>"

text \<open>A database with two students, and the application with only the first in memory.\<close>

definition stored_two :: tables where
  "stored_two =
     \<lparr>students_tbl = [\<lparr>s_uid = ''1'', s_name = ''Old'', s_student_class = ''9'',
                       s_section = ''A'', s_image_filename = ''''\<rparr>,
                      \<lparr>s_uid = ''2'', s_name = ''Bob'', s_student_class = ''10'',
                       s_section = ''B'', s_image_filename = ''''\<rparr>],
      subjects_tbl = [\<lparr>sub_id = 1, sub_name = ''Math''\<rparr>],
      subjects_seq = 1,
      student_subjects_tbl =
        [\<lparr>ss_student_uid = ''1'', ss_subject_id = 1, ss_mark = Some (Fin 50)\<rparr>,
         \<lparr>ss_student_uid = ''2'', ss_subject_id = 1, ss_mark = Some (Fin 80)\<rparr>]\<rparr>"

definition app_two :: app where
  "app_two = (init_db True stored_two [])\<lparr>students := [new_version]\<rparr>"


definition unsorted_student :: student where
  "unsorted_student =
     Student ''3'' ''Cy'' ''10'' ''A'' [''Physics'', ''Math''] [''90.0'', ''80.0''] ''''"

definition untidy_student :: student where
  "untidy_student =
     Student ''3'' ''Cy'' ''10'' ''A'' ['' Physics'', ''Math'', '' ''] [''90'', ''x'', ''5'']
       ''images/3.png''"

subsection \<open>Notions used in the proofs\<close>

text \<open>
  The row that the upsert writes for a student, and the student that \<open>load_data\<close> builds
  from a row of \<open>students\<close>.
\<close>

definition students_row_of :: "student \<Rightarrow> students_row" where
  "students_row_of st =
     \<lparr>s_uid = uid st, s_name = name st, s_student_class = student_class st,
      s_section = sectn st, s_image_filename = image_filename st\<rparr>"

definition load_row :: "pylib \<Rightarrow> tables \<Rightarrow> students_row \<Rightarrow> student" where
  "load_row L t srow =
     Student (s_uid srow) (s_name srow) (s_student_class srow) (s_section srow)
       (map fst (select_subjects_marks (s_uid srow) t))
       (map (\<lambda>r. mark_str L (snd r)) (select_subjects_marks (s_uid srow) t))
       (s_image_filename srow)"

text \<open>The join of a list of link rows with \<open>subjects\<close>, before sorting.\<close>

definition link_names :: "tables \<Rightarrow> student_subjects_row list \<Rightarrow> (string \<times> pyfloat option) list" where
  "link_names t ls =
     concat (map (\<lambda>l. map (\<lambda>sb. (sub_name sb, ss_mark l))
                         (filter (\<lambda>sb. sub_id sb = ss_subject_id l) (subjects_tbl t))) ls)"

text \<open>\<open>subjects\<close> has grown by rows with ids that were not in use.\<close>

definition extends :: "tables \<Rightarrow> tables \<Rightarrow> bool" where
  "extends t t' =
     (\<exists>ex. subjects_tbl t' = subjects_tbl t @ ex \<and>
           set (map sub_id ex) \<inter> set (map sub_id (subjects_tbl t)) = {})"

text \<open>
  What the upsert stores of the pairs \<open>zip(student.subjects, student.marks)\<close>: a pair
  whose subject is blank is skipped, the subject name is stripped, the mark is the value
  kept by the REAL column.
\<close>

definition normalized_pairs :: "pylib \<Rightarrow> (string \<times> string) list \<Rightarrow> (string \<times> pyfloat option) list" where
  "normalized_pairs L ps =
     [(py_strip (fst p), mark_val L (snd p)). p \<leftarrow> ps, py_strip (fst p) \<noteq> []]"

section \<open>Properties\<close>

subsection \<open>Lists of options\<close>

lemma those_map_Some: "those (map Some xs) = Some xs"
  by (induction xs) simp_all

lemma those_eq_None_iff: "those xs = None \<longleftrightarrow> None \<in> set xs"
  by (induction xs) (auto split: option.splits)

subsection \<open>Grades and averages\<close>

text \<open>
  C8. For an average \<open>a\<close> that is not \<open>None\<close>, \<open>_grade_of\<close> returns "A" when
  \<open>a \<ge> 90\<close>, "B" when \<open>75 \<le> a < 90\<close> and "C" when \<open>a < 75\<close>. The comparisons are
  Python's on floats, so the statement covers the infinities and is silent on NaN, for
  which none of the three conditions holds.
\<close>

theorem grade_thresholds:
  "(float_ge a 90 \<longrightarrow> grade_of (Some a) = ''A'') \<and>
   (float_ge a 75 \<and> float_lt a 90 \<longrightarrow> grade_of (Some a) = ''B'') \<and>
   (float_lt a 75 \<longrightarrow> grade_of (Some a) = ''C'')"
  by (cases a) (auto simp: grade_of_def)

theorem grade_thresholds_witness:
  "grade_of (Some (Fin 90)) = ''A'' \<and> grade_of (Some (Fin (179 / 2))) = ''B'' \<and>
   grade_of (Some (Fin 75)) = ''B'' \<and> grade_of (Some (Fin (149 / 2))) = ''C'' \<and>
   grade_of (Some PInf) = ''A'' \<and> grade_of (Some NInf) = ''C''"
  using grade_thresholds [of "Fin 90"] grade_thresholds [of "Fin (179 / 2)"]
    grade_thresholds [of "Fin 75"] grade_thresholds [of "Fin (149 / 2)"]
    grade_thresholds [of PInf] grade_thresholds [of NInf]
  by simp

text \<open>
  The cases in which \<open>_avg_of\<close> gives no average do not depend on float arithmetic:
  an empty mark list, a list of empty strings only, and a list with a mark that is
  neither empty nor numeric (\<open>float\<close> raises and the \<open>except\<close> branch returns \<open>None\<close>).
  The grade of no average is "N/A". In every other case the value is
  \<open>round(sum(vals) / len(vals), 2)\<close> as the doubles compute it, of which this model,
  having no arithmetic of doubles, says nothing.
\<close>

lemma avg_of_None:
  "(marks s = [] \<longrightarrow> avg_of L s = None) \<and>
   (filter (\<lambda>x. x \<noteq> []) (marks s) = [] \<longrightarrow> avg_of L s = None) \<and>
   ((\<exists>m \<in> set (marks s). m \<noteq> [] \<and> py_float L m = None) \<longrightarrow> avg_of L s = None) \<and>
   grade_of None = ''N/A''"
proof -
  have "avg_of L s = None" if "\<exists>m \<in> set (marks s). m \<noteq> [] \<and> py_float L m = None"
  proof -
    from that obtain m where "m \<in> set (filter (\<lambda>x. x \<noteq> []) (marks s))" "py_float L m = None"
      by auto
    then have "None \<in> set (map (py_float L) (filter (\<lambda>x. x \<noteq> []) (marks s)))"
      by (metis (no_types, lifting) image_eqI list.set_map)
    then have "those (map (py_float L) (filter (\<lambda>x. x \<noteq> []) (marks s))) = None"
      by (simp only: those_eq_None_iff)
    then show ?thesis by (simp add: avg_of_def)
  qed
  then show ?thesis
    by (auto simp: avg_of_def grade_of_def)
qed

subsection \<open>Search\<close>

text \<open>
  C3. The specification has search return exactly the students whose combined fields
  contain the query. With Alice and Bob in memory the query "alice" matches Alice, and
  \<open>search_students\<close> returns nobody: only the last student of the list is tested. On
  an empty list a non-empty query raises instead of returning.
\<close>

theorem search_students_misses_match:
  "search_students ''alice'' [alice, bob] = Inr [] \<and>
   search_spec ''alice'' [alice, bob] = [alice] \<and>
   search_students ''alice'' [] = Inl UnboundLocalError"
  by code_simp

subsection \<open>The form's save action\<close>

lemma save_body_non_numeric:
  assumes "those (map (py_float L) (comma_separated (entry_marks f))) = None"
  shows "save_body L md f a = (False, messagebox (validation_error f) a)"
  using assms by (simp add: save_body_def validation_error_def Let_def)

lemma save_body_add_existing:
  assumes "py_strip (entry_uid f) \<in> set (map uid (students a))"
    and "those (map (py_float L) (comma_separated (entry_marks f))) = Some vals"
  shows "save_body L Add f a =
           (False,
            if validation_error f \<noteq> ErrNumeric then messagebox (validation_error f) a
            else if img_path_var f \<noteq> [] \<and> stored_image f = None
                 then messagebox ErrUidExists (messagebox WarnImage a)
                 else messagebox ErrUidExists a)"
  using assms by (simp add: save_body_def validation_error_def Let_def messagebox_def)

text \<open>
  C9. When some entered mark does not parse as a number, \<open>save\<close> in either mode shows
  one validation error and returns the application unchanged but for that message: the
  student list, the database and the open transaction are as before. The message is the
  one of the first check that fails, "Marks must be numeric." when the required fields
  are there and the counts match.
\<close>

theorem save_blocked_by_non_numeric_mark:
  assumes "\<exists>m \<in> set (comma_separated (entry_marks f)). py_float L m = None"
  shows "save L md f a = a\<lparr>shown := shown a @ [validation_error f]\<rparr> \<and>
         validation_error f \<in> {ErrRequired, ErrMismatch, ErrNumeric}"
proof -
  from assms have "None \<in> set (map (py_float L) (comma_separated (entry_marks f)))"
    by (metis (no_types, lifting) image_eqI list.set_map)
  then have "those (map (py_float L) (comma_separated (entry_marks f))) = None"
    by (simp only: those_eq_None_iff)
  then have "save_body L md f a = (False, messagebox (validation_error f) a)"
    by (rule save_body_non_numeric)
  then have "save L md f a = a\<lparr>shown := shown a @ [validation_error f]\<rparr>"
    by (simp add: save_def messagebox_def)
  moreover have "validation_error f \<in> {ErrRequired, ErrMismatch, ErrNumeric}"
    by (simp add: validation_error_def)
  ultimately show ?thesis by simp
qed

theorem save_blocked_by_non_numeric_mark_witness:
  "save dec_lib Add form_bad_mark (init_db True empty_tables []) =
     (init_db True empty_tables [])\<lparr>shown := [ErrNumeric]\<rparr>"
proof -
  have h: "\<exists>m \<in> set (comma_separated (entry_marks form_bad_mark)). py_float dec_lib m = None"
    by code_simp
  have g: "validation_error form_bad_mark = ErrNumeric"
    by code_simp
  have i: "shown (init_db True empty_tables []) = []"
    by (simp add: init_db_def)
  from save_blocked_by_non_numeric_mark [OF h, of Add "init_db True empty_tables []"]
  show ?thesis by (simp only: g i append_Nil)
qed

text \<open>
  C10. In add mode, when the stripped UID of the form is the uid of a student in
  memory, \<open>save\<close> ends with an error box and leaves the student list and the database
  as they were: the state changes only by the messages shown, an optional warning of the
  photo step followed by one error ("UID already exists." when the earlier checks pass).
\<close>

theorem add_rejects_existing_uid:
  assumes "py_strip (entry_uid f) \<in> set (map uid (students a))"
  shows "\<exists>w e. set w \<subseteq> {WarnImage} \<and>
           e \<in> {ErrRequired, ErrMismatch, ErrNumeric, ErrUidExists} \<and>
           save L Add f a = a\<lparr>shown := shown a @ w @ [e]\<rparr>"
proof -
  have v: "validation_error f \<in> {ErrRequired, ErrMismatch, ErrNumeric, ErrUidExists}"
    by (simp add: validation_error_def)
  have n: "set ([] :: msg list) \<subseteq> {WarnImage}" and w: "set [WarnImage] \<subseteq> {WarnImage}"
    and u: "ErrUidExists \<in> {ErrRequired, ErrMismatch, ErrNumeric, ErrUidExists}"
    by simp_all
  show ?thesis
  proof (cases "those (map (py_float L) (comma_separated (entry_marks f)))")
    case None
    from save_body_non_numeric [OF None, of Add a]
    have "save L Add f a = a\<lparr>shown := shown a @ [] @ [validation_error f]\<rparr>"
      by (simp add: save_def messagebox_def)
    with n v show ?thesis by blast
  next
    case (Some vals)
    note body = save_body_add_existing [OF assms Some]
    show ?thesis
    proof (cases "validation_error f \<noteq> ErrNumeric")
      case True
      with body have "save L Add f a = a\<lparr>shown := shown a @ [] @ [validation_error f]\<rparr>"
        by (simp add: save_def messagebox_def)
      with n v show ?thesis by blast
    next
      case False
      show ?thesis
      proof (cases "img_path_var f \<noteq> [] \<and> stored_image f = None")
        case True
        with False body
        have "save L Add f a = a\<lparr>shown := shown a @ [WarnImage] @ [ErrUidExists]\<rparr>"
          by (simp add: save_def messagebox_def)
        with w u show ?thesis by blast
      next
        case no_warning: False
        with False body have "save L Add f a = a\<lparr>shown := shown a @ [] @ [ErrUidExists]\<rparr>"
          by (auto simp add: save_def messagebox_def)
        with n u show ?thesis by blast
      qed
    qed
  qed
qed

theorem add_rejects_existing_uid_witness:
  "save dec_lib Add form_dup app_one = app_one\<lparr>shown := [ErrUidExists]\<rparr>"
proof -
  have h: "py_strip (entry_uid form_dup) \<in> set (map uid (students app_one))"
    by code_simp
  have e: "save dec_lib Add form_dup app_one = app_one\<lparr>shown := [ErrUidExists]\<rparr>"
    by code_simp
  from add_rejects_existing_uid [OF h, of dec_lib] e show ?thesis by simp
qed

text \<open>
  C4. The invariant is that a student's subject list and mark list have equal length.
  The form's count check is skipped when no subject is entered, so a submission with
  marks and no subjects is accepted: the student that add mode builds, appends to the
  list and hands to the upsert has no subject and one mark. The reload at the end of
  \<open>save\<close> then brings back the stored record, from which the mark is gone.
\<close>

theorem save_builds_marks_without_subjects:
  "fst (save_body dec_lib Add form_marks_only (init_db True empty_tables [])) = True \<and>
   students (snd (save_body dec_lib Add form_marks_only (init_db True empty_tables []))) =
     [Student ''7'' ''Ann'' ''10'' '''' [] [''90.0''] ''''] \<and>
   shown (snd (save_body dec_lib Add form_marks_only (init_db True empty_tables []))) =
     [InfoAdded] \<and>
   students (save dec_lib Add form_marks_only (init_db True empty_tables [])) =
     [Student ''7'' ''Ann'' ''10'' '''' [] [] '''']"
  by code_simp

subsection \<open>Transactions\<close>

text \<open>
  C1. The claim is that one call of \<open>db_upsert_student_normalized\<close> is one transaction,
  all or nothing. Here the stored student "1" is saved again with a new name and a new
  mark, and the environment fails the fifth statement, the INSERT of the new link row.
  The commit inside \<open>_get_subject_id\<close> has by then made the new metadata and the
  deletion of the old link permanent: the database ends with the new name and no mark,
  which is neither the old record nor the new one, and the error box is shown. The last
  conjunct is the same call without a failure.
\<close>

theorem upsert_partial_commit:
  "committed (db_upsert_student_normalized dec_lib new_version
                (init_db True stored_db [False, False, False, False, True])) =
     \<lparr>students_tbl = [\<lparr>s_uid = ''1'', s_name = ''New'', s_student_class = ''10'',
                       s_section = ''B'', s_image_filename = ''''\<rparr>],
      subjects_tbl = [\<lparr>sub_id = 1, sub_name = ''Math''\<rparr>],
      subjects_seq = 2,
      student_subjects_tbl = []\<rparr> \<and>
   shown (db_upsert_student_normalized dec_lib new_version
            (init_db True stored_db [False, False, False, False, True])) = [DbErrSave ''1''] \<and>
   committed (db_upsert_student_normalized dec_lib new_version (init_db True stored_db [])) =
     \<lparr>students_tbl = [\<lparr>s_uid = ''1'', s_name = ''New'', s_student_class = ''10'',
                       s_section = ''B'', s_image_filename = ''''\<rparr>],
      subjects_tbl = [\<lparr>sub_id = 1, sub_name = ''Math''\<rparr>],
      subjects_seq = 2,
      student_subjects_tbl =
        [\<lparr>ss_student_uid = ''1'', ss_subject_id = 1, ss_mark = Some (Fin 90)\<rparr>]\<rparr>"
  by code_simp

subsection \<open>Statements and queries\<close>

lemma execute_frame:
  "execute stmt a = (ok, a') \<Longrightarrow>
     shown a' = shown a \<and> students a' = students a \<and> committed a' = committed a \<and>
     foreign_keys a' = foreign_keys a"
  by (auto simp: execute_def Let_def split: list.splits bool.splits option.splits)

lemma execute_True:
  "execute stmt a = (True, a') \<Longrightarrow> stmt (foreign_keys a) (working a) = Some (working a')"
  by (auto simp: execute_def Let_def split: list.splits bool.splits option.splits)


lemma app_faults_id: "faults a = [] \<Longrightarrow> a\<lparr>faults := []\<rparr> = a"
  by (cases a) simp

lemma execute_no_fault:
  "faults a = [] \<Longrightarrow>
     execute stmt a =
       (case stmt (foreign_keys a) (working a) of
          None \<Rightarrow> (False, a)
        | Some t \<Rightarrow> (True, a\<lparr>working := t\<rparr>))"
  by (simp add: execute_def app_faults_id split: option.splits)

lemma query_no_fault: "faults a = [] \<Longrightarrow> query sel a = (Some (sel (working a)), a)"
  by (simp add: query_def app_faults_id)

lemma students_tbl_delete_students [simp]:
  "students_tbl (delete_students P fk t) = filter (\<lambda>r. \<not> P r) (students_tbl t)"
  by (simp add: delete_students_def Let_def)

subsection \<open>Messages of the upsert\<close>










subsection \<open>Reconciliation and deletion\<close>




text \<open>
  C7. With foreign keys enforced, as \<open>_init_db\<close> asks for, deleting a stored student
  with \<open>db_delete_student_normalized\<close>, when the call reports no error, leaves no row of
  \<open>student_subjects\<close> with that student's uid, and no row of \<open>students\<close> either; the
  deletion is committed.
\<close>

theorem delete_leaves_no_links:
  assumes "foreign_keys a"
    and "u \<in> set (map s_uid (students_tbl (working a)))"
    and "shown (db_delete_student_normalized u a) = shown a"
  shows "(\<forall>l \<in> set (student_subjects_tbl (committed (db_delete_student_normalized u a))).
            ss_student_uid l \<noteq> u) \<and>
         u \<notin> set (map s_uid (students_tbl (committed (db_delete_student_normalized u a)))) \<and>
         working (db_delete_student_normalized u a) =
           committed (db_delete_student_normalized u a)"
proof -
  let ?stmt = "\<lambda>fk t. Some (delete_students (\<lambda>r. s_uid r = u) fk t)"
  obtain ok a1 where e: "execute ?stmt a = (ok, a1)" by (cases "execute ?stmt a")
  show ?thesis
  proof (cases ok)
    case False
    with e have "shown (db_delete_student_normalized u a) = shown a1 @ [DbErrDelete u]"
      by (simp add: db_delete_student_normalized_def messagebox_def rollback_def)
    with execute_frame [OF e] assms(3) show ?thesis by simp
  next
    case True
    with e have r: "db_delete_student_normalized u a = commit a1"
      by (simp add: db_delete_student_normalized_def)
    from True e execute_True [of ?stmt a a1]
    have "?stmt (foreign_keys a) (working a) = Some (working a1)"
      by simp
    with assms(1) have w: "working a1 = delete_students (\<lambda>r. s_uid r = u) True (working a)"
      by simp
    from assms(2) have "u \<in> set (map s_uid (filter (\<lambda>r. s_uid r = u) (students_tbl (working a))))"
      by auto
    with w r show ?thesis
      by (auto simp: commit_def delete_students_def Let_def)
  qed
qed

theorem delete_leaves_no_links_witness:
  "''2'' \<notin> set (map ss_student_uid
              (student_subjects_tbl (committed (db_delete_student_normalized ''2'' app_two)))) \<and>
   ''2'' \<notin> set (map s_uid (students_tbl (committed (db_delete_student_normalized ''2'' app_two))))"
proof -
  have h1: "foreign_keys app_two" by (simp add: app_two_def init_db_def)
  have h2: "''2'' \<in> set (map s_uid (students_tbl (working app_two)))" by code_simp
  have h3: "shown (db_delete_student_normalized ''2'' app_two) = shown app_two" by code_simp
  from delete_leaves_no_links [OF h1 h2 h3] show ?thesis by auto
qed

subsection \<open>Saving and loading without a database error\<close>

lemma link_names_append: "link_names t (xs @ ys) = link_names t xs @ link_names t ys"
  by (simp add: link_names_def)

lemma link_names_Nil: "link_names t [] = []"
  by (simp add: link_names_def)

lemma select_subjects_marks_link_names:
  "select_subjects_marks u t =
     sort_key fst (link_names t (filter (\<lambda>l. ss_student_uid l = u) (student_subjects_tbl t)))"
proof -
  have inner: "concat (map (\<lambda>x. if P x then [g x] else []) xs) = map g (filter P xs)"
    for P :: "subjects_row \<Rightarrow> bool" and g :: "subjects_row \<Rightarrow> string \<times> pyfloat option" and xs
    by (induction xs) simp_all
  have "[(sub_name sb, ss_mark l). l \<leftarrow> ls, ss_student_uid l = u, sb \<leftarrow> subjects_tbl t,
           sub_id sb = ss_subject_id l] = link_names t (filter (\<lambda>l. ss_student_uid l = u) ls)"
    for ls
    by (induction ls) (simp_all add: link_names_def inner)
  then show ?thesis by (simp add: select_subjects_marks_def)
qed

lemma extends_refl: "extends t t"
  by (simp add: extends_def)

lemma extends_trans:
  assumes "extends t t1" and "extends t1 t2"
  shows "extends t t2"
proof -
  from assms(1) obtain e1 where e1: "subjects_tbl t1 = subjects_tbl t @ e1"
    "set (map sub_id e1) \<inter> set (map sub_id (subjects_tbl t)) = {}"
    by (auto simp: extends_def)
  from assms(2) obtain e2 where e2: "subjects_tbl t2 = subjects_tbl t1 @ e2"
    "set (map sub_id e2) \<inter> set (map sub_id (subjects_tbl t1)) = {}"
    by (auto simp: extends_def)
  from e1 e2 have "subjects_tbl t2 = subjects_tbl t @ (e1 @ e2)" by simp
  moreover from e1 e2 have "set (map sub_id (e1 @ e2)) \<inter> set (map sub_id (subjects_tbl t)) = {}"
    by auto
  ultimately show ?thesis unfolding extends_def by blast
qed

lemma link_names_extends:
  assumes "extends t t'" and "ss_subject_id l \<in> set (map sub_id (subjects_tbl t))"
  shows "link_names t' [l] = link_names t [l]"
proof -
  from assms(1) obtain ex where ex: "subjects_tbl t' = subjects_tbl t @ ex"
    "set (map sub_id ex) \<inter> set (map sub_id (subjects_tbl t)) = {}"
    by (auto simp: extends_def)
  from ex(2) assms(2) have "\<forall>sb \<in> set ex. sub_id sb \<noteq> ss_subject_id l"
    by (metis disjoint_iff image_eqI list.set_map)
  then have "filter (\<lambda>sb. sub_id sb = ss_subject_id l) ex = []"
    by (simp add: filter_empty_conv)
  with ex(1) show ?thesis by (simp add: link_names_def)
qed

lemma find_distinct_filter:
  "distinct (map f xs) \<Longrightarrow> find P xs = Some r \<Longrightarrow> filter (\<lambda>x. f x = f r) xs = [r]"
proof (induction xs)
  case Nil
  then show ?case by simp
next
  case (Cons x xs)
  show ?case
  proof (cases "P x")
    case True
    with Cons.prems have "r = x" by simp
    moreover from Cons.prems(1) have "\<forall>y \<in> set xs. f y \<noteq> f x"
      by (metis distinct.simps(2) image_eqI list.simps(9) list.set_map)
    then have "filter (\<lambda>y. f y = f x) xs = []" by (simp add: filter_empty_conv)
    ultimately show ?thesis by simp
  next
    case False
    with Cons.prems have f: "find P xs = Some r" by simp
    then have "r \<in> set xs" by (auto simp: find_Some_iff)
    with Cons.prems(1) have "f x \<noteq> f r"
      by (metis distinct.simps(2) image_eqI list.simps(9) list.set_map)
    with Cons.IH f Cons.prems(1) show ?thesis by simp
  qed
qed

lemma find_append_new:
  "\<forall>x \<in> set xs. \<not> P x \<Longrightarrow> P y \<Longrightarrow> find P (xs @ [y]) = Some y"
  by (induction xs) simp_all

lemma fresh_id: "Suc (Max (insert s (set ids))) \<notin> set ids"
proof
  assume "Suc (Max (insert s (set ids))) \<in> set ids"
  then have "Suc (Max (insert s (set ids))) \<le> Max (insert s (set ids))"
    by (intro Max_ge) simp_all
  then show False by simp
qed

lemma get_subject_id_blank:
  "py_strip subj = [] \<Longrightarrow> get_subject_id subj a = (None, a)"
  by (simp add: get_subject_id_def Let_def)

lemma get_subject_id_no_fault:
  assumes "faults a = []" and "py_strip subj \<noteq> []"
    and "distinct (map sub_id (subjects_tbl (working a)))"
  shows "\<exists>sid t1. get_subject_id subj a = (Some sid, a\<lparr>working := t1, committed := t1\<rparr>) \<and>
           students_tbl t1 = students_tbl (working a) \<and>
           student_subjects_tbl t1 = student_subjects_tbl (working a) \<and>
           extends (working a) t1 \<and>
           distinct (map sub_id (subjects_tbl t1)) \<and>
           filter (\<lambda>sb. sub_id sb = sid) (subjects_tbl t1) =
             [\<lparr>sub_id = sid, sub_name = py_strip subj\<rparr>]"
proof -
  let ?nm = "py_strip subj"
  let ?t = "working a"
  from assms(2) have ne: "subj \<noteq> []" by (auto simp: py_strip_def)
  show ?thesis
  proof (cases "?nm \<in> set (map sub_name (subjects_tbl ?t))")
    case True
    let ?i = "Suc (Max (insert (subjects_seq ?t) (set (map sub_id (subjects_tbl ?t)))))"
    let ?t1 = "?t\<lparr>subjects_seq := ?i\<rparr>"
    from True have ins: "insert_or_ignore_subject ?nm (foreign_keys a) ?t = Some ?t1"
      by (simp add: insert_or_ignore_subject_def Let_def)
    from True obtain r where r: "find (\<lambda>r. sub_name r = ?nm) (subjects_tbl ?t) = Some r"
      by (cases "find (\<lambda>r. sub_name r = ?nm) (subjects_tbl ?t)") (auto simp: find_None_iff)
    then have nm: "sub_name r = ?nm" by (auto simp: find_Some_iff)
    from find_distinct_filter [OF assms(3) r]
    have "filter (\<lambda>sb. sub_id sb = sub_id r) (subjects_tbl ?t) = [r]" .
    with nm have fl: "filter (\<lambda>sb. sub_id sb = sub_id r) (subjects_tbl ?t) =
        [\<lparr>sub_id = sub_id r, sub_name = ?nm\<rparr>]" by simp
    from fl have fl1: "filter (\<lambda>sb. sub_id sb = sub_id r) (subjects_tbl ?t1) =
        [\<lparr>sub_id = sub_id r, sub_name = ?nm\<rparr>]" by simp
    have ext: "extends ?t ?t1" by (simp add: extends_def)
    from assms(3) have dist: "distinct (map sub_id (subjects_tbl ?t1))" by simp
    from ins r assms(1) ne assms(2)
    have "get_subject_id subj a = (Some (sub_id r), a\<lparr>working := ?t1, committed := ?t1\<rparr>)"
      by (simp add: get_subject_id_def Let_def execute_no_fault query_no_fault
            select_subject_id_def commit_def)
    moreover have "students_tbl ?t1 = students_tbl ?t"
      and "student_subjects_tbl ?t1 = student_subjects_tbl ?t" by simp_all
    ultimately show ?thesis using fl1 ext dist by blast
  next
    case False
    let ?i = "Suc (Max (insert (subjects_seq ?t) (set (map sub_id (subjects_tbl ?t)))))"
    let ?row = "\<lparr>sub_id = ?i, sub_name = ?nm\<rparr>"
    let ?t1 = "?t\<lparr>subjects_tbl := subjects_tbl ?t @ [?row], subjects_seq := ?i\<rparr>"
    from False have ins: "insert_or_ignore_subject ?nm (foreign_keys a) ?t = Some ?t1"
      by (simp add: insert_or_ignore_subject_def Let_def)
    have fresh: "?i \<notin> set (map sub_id (subjects_tbl ?t))" by (rule fresh_id)
    from False have "\<forall>x \<in> set (subjects_tbl ?t). \<not> sub_name x = ?nm"
      by (metis image_eqI list.set_map)
    then have fnd: "find (\<lambda>r. sub_name r = ?nm) (subjects_tbl ?t @ [?row]) = Some ?row"
      by (rule find_append_new) simp
    from fresh have "\<forall>x \<in> set (subjects_tbl ?t). sub_id x \<noteq> ?i"
      by (metis image_eqI list.set_map)
    then have "filter (\<lambda>sb. sub_id sb = ?i) (subjects_tbl ?t) = []"
      by (simp add: filter_empty_conv)
    then have fl: "filter (\<lambda>sb. sub_id sb = ?i) (subjects_tbl ?t1) = [?row]" by simp
    from fresh have ext: "extends ?t ?t1" by (simp add: extends_def)
    from fresh assms(3) have dist: "distinct (map sub_id (subjects_tbl ?t1))" by simp
    from ins fnd assms(1) ne assms(2)
    have "get_subject_id subj a = (Some ?i, a\<lparr>working := ?t1, committed := ?t1\<rparr>)"
      by (simp add: get_subject_id_def Let_def execute_no_fault query_no_fault
            select_subject_id_def commit_def)
    moreover have "students_tbl ?t1 = students_tbl ?t"
      and "student_subjects_tbl ?t1 = student_subjects_tbl ?t" by simp_all
    ultimately show ?thesis using fl ext dist by blast
  qed
qed

lemma insert_mappings_no_fault:
  assumes "faults a = []"
    and "distinct (map sub_id (subjects_tbl (working a)))"
    and "foreign_keys a \<longrightarrow> u \<in> set (map s_uid (students_tbl (working a)))"
  shows "\<exists>t' c' new. insert_mappings L u ps a = (True, a\<lparr>working := t', committed := c'\<rparr>) \<and>
           students_tbl t' = students_tbl (working a) \<and>
           student_subjects_tbl t' = student_subjects_tbl (working a) @ new \<and>
           (\<forall>l \<in> set new. ss_student_uid l = u) \<and>
           extends (working a) t' \<and>
           link_names t' new = normalized_pairs L ps"
  using assms
proof (induction ps arbitrary: a)
  case Nil
  have "a\<lparr>working := working a, committed := committed a\<rparr> = a" by (cases a) simp
  then show ?case
    by (intro exI [of _ "working a"] exI [of _ "committed a"] exI [of _ "[]"])
       (simp add: extends_refl link_names_Nil normalized_pairs_def)
next
  case (Cons p ps)
  obtain subj mk where p: "p = (subj, mk)" by (cases p)
  show ?case
  proof (cases "py_strip subj = []")
    case True
    then have g: "get_subject_id subj a = (None, a)" by (rule get_subject_id_blank)
    from Cons.IH [OF Cons.prems] obtain t' c' new where
      r: "insert_mappings L u ps a = (True, a\<lparr>working := t', committed := c'\<rparr>)"
      and k: "students_tbl t' = students_tbl (working a)"
        "student_subjects_tbl t' = student_subjects_tbl (working a) @ new"
        "\<forall>l \<in> set new. ss_student_uid l = u"
        "extends (working a) t'"
        "link_names t' new = normalized_pairs L ps"
      by blast
    from g p have e: "insert_mappings L u (p # ps) a = insert_mappings L u ps a" by simp
    from True p have n: "normalized_pairs L (p # ps) = normalized_pairs L ps"
      by (simp add: normalized_pairs_def)
    from r k e n show ?thesis
      by (intro exI [of _ t'] exI [of _ c'] exI [of _ new]) simp
  next
    case False
    from get_subject_id_no_fault [OF Cons.prems(1) False Cons.prems(2)]
    obtain sid t1 where
      g: "get_subject_id subj a = (Some sid, a\<lparr>working := t1, committed := t1\<rparr>)"
      and g1: "students_tbl t1 = students_tbl (working a)"
        "student_subjects_tbl t1 = student_subjects_tbl (working a)"
        "extends (working a) t1"
        "distinct (map sub_id (subjects_tbl t1))"
        "filter (\<lambda>sb. sub_id sb = sid) (subjects_tbl t1) =
           [\<lparr>sub_id = sid, sub_name = py_strip subj\<rparr>]"
      by blast
    let ?a1 = "a\<lparr>working := t1, committed := t1\<rparr>"
    let ?l = "\<lparr>ss_student_uid = u, ss_subject_id = sid, ss_mark = mark_val L mk\<rparr>"
    let ?t2 = "t1\<lparr>student_subjects_tbl := student_subjects_tbl t1 @ [?l]\<rparr>"
    let ?a2 = "?a1\<lparr>working := ?t2\<rparr>"
    from g1(5) have "\<lparr>sub_id = sid, sub_name = py_strip subj\<rparr>
        \<in> set (filter (\<lambda>sb. sub_id sb = sid) (subjects_tbl t1))"
      by simp
    then have "\<lparr>sub_id = sid, sub_name = py_strip subj\<rparr> \<in> set (subjects_tbl t1)" by simp
    then have sid_in: "sid \<in> set (map sub_id (subjects_tbl t1))" by force
    from Cons.prems(3) g1(1)
    have u_in: "foreign_keys a \<longrightarrow> u \<in> set (map s_uid (students_tbl t1))"
      by simp
    from sid_in u_in
    have ins: "insert_student_subject ?l (foreign_keys ?a1) (working ?a1) = Some ?t2"
      by (simp add: insert_student_subject_def)
    have f1: "faults ?a1 = []" using Cons.prems(1) by simp
    from execute_no_fault [OF f1, of "insert_student_subject ?l"] ins
    have e: "execute (insert_student_subject ?l) ?a1 = (True, ?a2)" by simp
    have pre2: "faults ?a2 = []" "distinct (map sub_id (subjects_tbl (working ?a2)))"
      "foreign_keys ?a2 \<longrightarrow> u \<in> set (map s_uid (students_tbl (working ?a2)))"
      using Cons.prems(1) g1(4) u_in by simp_all
    from Cons.IH [OF pre2] obtain t' c' new where
      r: "insert_mappings L u ps ?a2 = (True, ?a2\<lparr>working := t', committed := c'\<rparr>)"
      and k: "students_tbl t' = students_tbl (working ?a2)"
        "student_subjects_tbl t' = student_subjects_tbl (working ?a2) @ new"
        "\<forall>l \<in> set new. ss_student_uid l = u"
        "extends (working ?a2) t'"
        "link_names t' new = normalized_pairs L ps"
      by blast
    from g e p have step: "insert_mappings L u (p # ps) a = insert_mappings L u ps ?a2"
      by simp
    have ext2: "extends t1 ?t2" by (simp add: extends_def)
    from k(4) have ext3: "extends ?t2 t'" by simp
    from extends_trans [OF g1(3) extends_trans [OF ext2 ext3]]
    have ext: "extends (working a) t'" .
    have "link_names ?t2 [?l] = [(py_strip subj, mark_val L mk)]"
      using g1(5) by (simp add: link_names_def)
    moreover have "link_names t' [?l] = link_names ?t2 [?l]"
      using ext3 sid_in by (intro link_names_extends) simp_all
    ultimately have one: "link_names t' [?l] = [(py_strip subj, mark_val L mk)]" by simp
    from False p
    have n: "normalized_pairs L (p # ps) = (py_strip subj, mark_val L mk) # normalized_pairs L ps"
      by (simp add: normalized_pairs_def)
    from one k(5) n have names: "link_names t' (?l # new) = normalized_pairs L (p # ps)"
      using link_names_append [of t' "[?l]" new] by simp
    from k(2) g1(2)
    have links: "student_subjects_tbl t' = student_subjects_tbl (working a) @ (?l # new)"
      by simp
    from k(1) g1(1) have studs: "students_tbl t' = students_tbl (working a)" by simp
    from k(3) have uids: "\<forall>l \<in> set (?l # new). ss_student_uid l = u" by simp
    from r step have res: "insert_mappings L u (p # ps) a =
        (True, a\<lparr>working := t', committed := c'\<rparr>)"
      by simp
    from res studs links uids ext names show ?thesis
      by (intro exI [of _ t'] exI [of _ c'] exI [of _ "?l # new"]) simp
  qed
qed

lemma db_upsert_no_fault:
  assumes "faults a = []" and "distinct (map sub_id (subjects_tbl (working a)))"
  shows "\<exists>t' base new.
           db_upsert_student_normalized L st a = a\<lparr>working := t', committed := t'\<rparr> \<and>
           students_tbl t' =
             filter (\<lambda>x. s_uid x \<noteq> uid st) (students_tbl (working a)) @ [students_row_of st] \<and>
           student_subjects_tbl t' = base @ new \<and>
           (\<forall>l \<in> set base. ss_student_uid l \<noteq> uid st) \<and>
           (\<forall>l \<in> set new. ss_student_uid l = uid st) \<and>
           link_names t' new = normalized_pairs L (zip (subjects st) (marks st))"
proof -
  let ?u = "uid st"
  let ?t = "working a"
  let ?d = "delete_students (\<lambda>x. s_uid x = s_uid (students_row_of st)) (foreign_keys a) ?t"
  let ?t1 = "?d\<lparr>students_tbl := students_tbl ?d @ [students_row_of st]\<rparr>"
  let ?base = "filter (\<lambda>l. ss_student_uid l \<noteq> ?u) (student_subjects_tbl ?t1)"
  let ?t2 = "?t1\<lparr>student_subjects_tbl := ?base\<rparr>"
  let ?a1 = "a\<lparr>working := ?t1\<rparr>"
  let ?a2 = "?a1\<lparr>working := ?t2\<rparr>"
  have e1: "execute (insert_or_replace_student (students_row_of st)) a = (True, ?a1)"
    using execute_no_fault [OF assms(1), of "insert_or_replace_student (students_row_of st)"]
    by (simp add: insert_or_replace_student_def Let_def)
  have f1: "faults ?a1 = []" using assms(1) by simp
  have e2: "execute (delete_student_subjects ?u) ?a1 = (True, ?a2)"
    using execute_no_fault [OF f1, of "delete_student_subjects ?u"]
    by (simp add: delete_student_subjects_def)
  have sub1: "subjects_tbl ?t2 = subjects_tbl ?t"
    by (simp add: delete_students_def Let_def)
  have st2: "students_tbl ?t2 =
      filter (\<lambda>x. s_uid x \<noteq> ?u) (students_tbl ?t) @ [students_row_of st]"
    by (simp add: delete_students_def Let_def students_row_of_def)
  have pre: "faults ?a2 = []" "distinct (map sub_id (subjects_tbl (working ?a2)))"
    "foreign_keys ?a2 \<longrightarrow> ?u \<in> set (map s_uid (students_tbl (working ?a2)))"
    using assms sub1 st2 by (simp_all add: students_row_of_def)
  from insert_mappings_no_fault [OF pre, of L "zip (subjects st) (marks st)"]
  obtain t' c' new where
    r: "insert_mappings L ?u (zip (subjects st) (marks st)) ?a2 =
          (True, ?a2\<lparr>working := t', committed := c'\<rparr>)"
    and k: "students_tbl t' = students_tbl (working ?a2)"
      "student_subjects_tbl t' = student_subjects_tbl (working ?a2) @ new"
      "\<forall>l \<in> set new. ss_student_uid l = ?u"
      "link_names t' new = normalized_pairs L (zip (subjects st) (marks st))"
    by blast
  from e1 e2 r
  have "db_upsert_student_normalized L st a = a\<lparr>working := t', committed := t'\<rparr>"
    by (simp add: db_upsert_student_normalized_def commit_def students_row_of_def)
  moreover from k(1) st2 have "students_tbl t' =
      filter (\<lambda>x. s_uid x \<noteq> ?u) (students_tbl ?t) @ [students_row_of st]" by simp
  moreover from k(2) have "student_subjects_tbl t' = ?base @ new" by simp
  moreover have "\<forall>l \<in> set ?base. ss_student_uid l \<noteq> ?u" by simp
  ultimately show ?thesis using k(3,4) by blast
qed

lemma load_rows_no_fault:
  "faults a = [] \<Longrightarrow>
     load_rows L rows a = (True, a\<lparr>students := students a @ map (load_row L (working a)) rows\<rparr>)"
proof (induction rows arbitrary: a)
  case Nil
  have "a\<lparr>students := students a\<rparr> = a" by (cases a) simp
  then show ?case by simp
next
  case (Cons srow rows)
  let ?a1 = "a\<lparr>students := students a @ [load_row L (working a) srow]\<rparr>"
  from Cons.prems have f: "faults ?a1 = []" by simp
  from Cons.IH [OF f] Cons.prems show ?case
    by (simp add: query_no_fault load_row_def)
qed

lemma load_data_no_fault:
  assumes "faults a = []"
  shows "load_data L a =
           a\<lparr>students := map (load_row L (working a)) (students_tbl (working a))\<rparr>"
proof -
  let ?a0 = "a\<lparr>students := []\<rparr>"
  from assms have f: "faults ?a0 = []" by simp
  from query_no_fault [OF f, of students_tbl]
    load_rows_no_fault [OF f, of L "students_tbl (working a)"]
  show ?thesis by (simp add: load_data_def)
qed

text \<open>
  C2. The claim is that saving a student and loading gives back identical fields,
  with the same ordered list of (subject, mark) pairs. That fails: \<open>load_data\<close> orders
  the pairs by subject name, so a student saved with Physics before Math comes back
  with Math before Physics.
\<close>

theorem load_reorders_subjects:
  "students (load_data dec_lib
              (db_upsert_student_normalized dec_lib unsorted_student
                 (init_db True empty_tables []))) =
     [Student ''3'' ''Cy'' ''10'' ''A'' [''Math'', ''Physics''] [''80.0'', ''90.0''] ''''] \<and>
   students (load_data dec_lib
              (db_upsert_student_normalized dec_lib unsorted_student
                 (init_db True empty_tables []))) \<noteq> [unsorted_student]"
  by code_simp

text \<open>
  C2, as amended. On a database whose subject ids are unique (\<open>id\<close> is the primary key
  of \<open>subjects\<close>), when no statement fails, saving a student and then loading yields
  exactly one student with that uid. It has the saved uid, name, class, section and image
  reference. Its (subject, mark) pairs are the pairs of \<open>zip(subjects, marks)\<close> as the
  upsert stores them (\<open>normalized_pairs\<close>: pairs with a blank subject skipped, subject
  names stripped, marks converted by \<open>float\<close> and the REAL column), ordered by subject
  name, each mark printed by \<open>str\<close>, the empty string for NULL.
\<close>

theorem save_then_load:
  assumes "faults a = []" and "distinct (map sub_id (subjects_tbl (working a)))"
  shows "\<exists>ps. mset ps = mset (normalized_pairs L (zip (subjects st) (marks st))) \<and>
           sorted (map fst ps) \<and>
           filter (\<lambda>s. uid s = uid st)
             (students (load_data L (db_upsert_student_normalized L st a))) =
             [Student (uid st) (name st) (student_class st) (sectn st)
                (map fst ps) (map (\<lambda>p. mark_str L (snd p)) ps) (image_filename st)]"
proof -
  let ?ps = "sort_key fst (normalized_pairs L (zip (subjects st) (marks st)))"
  from db_upsert_no_fault [OF assms, of L st] obtain t' base new where
    up: "db_upsert_student_normalized L st a = a\<lparr>working := t', committed := t'\<rparr>"
    and rows: "students_tbl t' =
             filter (\<lambda>x. s_uid x \<noteq> uid st) (students_tbl (working a)) @ [students_row_of st]"
    and links: "student_subjects_tbl t' = base @ new"
      "\<forall>l \<in> set base. ss_student_uid l \<noteq> uid st"
      "\<forall>l \<in> set new. ss_student_uid l = uid st"
    and names: "link_names t' new = normalized_pairs L (zip (subjects st) (marks st))"
    by blast
  let ?a' = "a\<lparr>working := t', committed := t'\<rparr>"
  from assms(1) have f: "faults ?a' = []" by simp
  from load_data_no_fault [OF f, of L]
  have loaded: "students (load_data L ?a') = map (load_row L t') (students_tbl t')" by simp
  have u: "uid (load_row L t' r) = s_uid r" for r
    by (simp add: load_row_def Student_def)
  have "filter (\<lambda>s. uid s = uid st) (map (load_row L t') rs) =
          map (load_row L t') (filter (\<lambda>r. s_uid r = uid st) rs)" for rs
    by (induction rs) (simp_all add: u)
  with loaded rows have one: "filter (\<lambda>s. uid s = uid st) (students (load_data L ?a')) =
      [load_row L t' (students_row_of st)]"
    by (simp add: students_row_of_def u)
  from links(2) have b: "filter (\<lambda>l. ss_student_uid l = uid st) base = []"
    by (simp add: filter_empty_conv)
  from links(3) have n: "filter (\<lambda>l. ss_student_uid l = uid st) new = new"
    by (simp add: filter_id_conv)
  from links(1) b n names have "select_subjects_marks (uid st) t' = ?ps"
    by (simp add: select_subjects_marks_link_names)
  then have "load_row L t' (students_row_of st) =
      Student (uid st) (name st) (student_class st) (sectn st)
              (map fst ?ps) (map (\<lambda>p. mark_str L (snd p)) ?ps) (image_filename st)"
    by (simp add: load_row_def students_row_of_def)
  with one up have "filter (\<lambda>s. uid s = uid st)
             (students (load_data L (db_upsert_student_normalized L st a))) =
             [Student (uid st) (name st) (student_class st) (sectn st)
                (map fst ?ps) (map (\<lambda>p. mark_str L (snd p)) ?ps) (image_filename st)]"
    by simp
  moreover have "mset ?ps = mset (normalized_pairs L (zip (subjects st) (marks st)))"
    by simp
  moreover have "sorted (map fst ?ps)" by simp
  ultimately show ?thesis by blast
qed

theorem save_then_load_witness:
  "filter (\<lambda>s. uid s = ''3'')
     (students (load_data dec_lib (db_upsert_student_normalized dec_lib untidy_student app_one))) =
     [Student ''3'' ''Cy'' ''10'' ''A'' [''Math'', ''Physics''] ['''', ''90.0''] ''images/3.png'']"
proof -
  have h1: "faults app_one = []" by (simp add: app_one_def init_db_def)
  have h2: "distinct (map sub_id (subjects_tbl (working app_one)))" by code_simp
  have e: "filter (\<lambda>s. uid s = ''3'')
     (students (load_data dec_lib (db_upsert_student_normalized dec_lib untidy_student app_one))) =
     [Student ''3'' ''Cy'' ''10'' ''A'' [''Math'', ''Physics''] ['''', ''90.0''] ''images/3.png'']"
    by code_simp
  from save_then_load [OF h1 h2, of dec_lib untidy_student] e show ?thesis by simp
qed

end
